theory Spec2Isabelle
  imports Main "HOL-Library.Word"
begin

unbundle bit_operations_syntax

section \<open>Data\<close>

type_synonym byte = "8 word"

text \<open>
  The query that \<open>SetQuestion\<close> builds: the name after \<open>dns.Fqdn\<close>, the record type and
  the recursion-desired flag. The message id that the library draws is part of what
  \<open>Pack\<close> yields and is not modelled apart from it.
\<close>

record query =
  qname :: string
  qtype :: "16 word"
  recursion_desired :: bool

text \<open>
  The DNS library (github.com/miekg/dns) is an external collaborator of the program: its
  three functions are parameters of the model. \<open>Pack\<close> and \<open>Unpack\<close> return the
  library's error text on the left. The type \<open>'m\<close> is the decoded message.
\<close>

record 'm codec =
  Fqdn :: "string \<Rightarrow> string"
  Pack :: "query \<Rightarrow> string + byte list"
  Unpack :: "byte list \<Rightarrow> string + 'm"

text \<open>
  One constructor for each \<open>fmt.Errorf\<close> of the program, carrying what its format
  string interpolates (the cause's text; for the non-OK status, \<open>resp.Status\<close> and the
  body).
\<close>

datatype error =
    ConnectFailed string          \<comment> \<open>failed to connect to DNS server: %v\<close>
  | PackFailed string             \<comment> \<open>failed to pack DNS message: %v\<close>
  | SendFailed string             \<comment> \<open>failed to send DNS query: %v\<close>
  | ReadLengthFailed string       \<comment> \<open>failed to read response length: %v\<close>
  | ReadResponseFailed string     \<comment> \<open>failed to read DNS response: %v\<close>
  | UnpackFailed string           \<comment> \<open>failed to unpack DNS response: %v\<close>
  | CreateRequestFailed string    \<comment> \<open>failed to create HTTP request: %v\<close>
  | HTTPRequestFailed string      \<comment> \<open>HTTP request failed: %v\<close>
  | NonOKStatus string "byte list"
      \<comment> \<open>DoH server returned non-OK status: %s, body: %s\<close>

section \<open>The network, as the program sees it\<close>

text \<open>
  A blocking library call made without a deadline either never returns, returns an
  error, or returns its value.
\<close>

datatype 'a blocking = Hangs | Fails string | Done 'a

text \<open>
  What a peer sends on a stream: the segments in the order they become available to
  the reader, and what happens once they are used up (the peer closes, stays silent
  with the connection open, or the connection breaks).
\<close>

datatype ending = PeerCloses | PeerSilent | PeerFails string

record stream =
  pending :: "byte list list"
  ending :: ending

text \<open>
  \<open>conn.Read(p)\<close> with \<open>len p = n\<close> on a TCP connection: it returns at once with no
  bytes when \<open>n = 0\<close>; otherwise it waits until some bytes are available and returns
  at most \<open>n\<close> of them, from the first segment only, leaving the rest of that segment
  for the next call; with nothing left it reports the end of the stream.
\<close>

definition conn_Read :: "nat \<Rightarrow> stream \<Rightarrow> (byte list \<times> stream) blocking" where
  "conn_Read n s =
     (if n = 0 then Done ([], s)
      else case dropWhile (\<lambda>seg. seg = []) (pending s) of
             [] \<Rightarrow> (case ending s of
                      PeerCloses \<Rightarrow> Fails ''EOF''
                    | PeerSilent \<Rightarrow> Hangs
                    | PeerFails e \<Rightarrow> Fails e)
           | seg # rest \<Rightarrow> Done (take n seg, s\<lparr>pending := drop n seg # rest\<rparr>))"

text \<open>
  \<open>ioutil.ReadAll\<close>: reads to the end of the stream and returns everything read, with
  the error that ended the reading if it was not the end of the stream.
\<close>

definition ReadAll :: "stream \<Rightarrow> (byte list \<times> string option) option" where
  "ReadAll s =
     (case ending s of
        PeerSilent \<Rightarrow> None
      | PeerCloses \<Rightarrow> Some (concat (pending s), None)
      | PeerFails e \<Rightarrow> Some (concat (pending s), Some e))"

text \<open>\<open>make([]byte, n)\<close> is \<open>n\<close> zero bytes; a read overwrites a prefix of the buffer.\<close>

definition make_bytes :: "nat \<Rightarrow> byte list" where
  "make_bytes n = replicate n 0"

definition fill :: "byte list \<Rightarrow> byte list \<Rightarrow> byte list" where
  "fill buf got = got @ drop (length got) buf"

text \<open>
  A dialled connection: how \<open>conn.Write\<close> ends (it returns an error unless it wrote
  every byte), and what the peer sends.
\<close>

record conn =
  write_outcome :: "unit blocking"
  incoming :: stream

record request =
  rmethod :: string
  url :: string
  headers :: "(string \<times> string) list"

record response =
  status_code :: int
  status :: string
  body :: stream

text \<open>
  The world outside the program: \<open>net.Dial\<close> by address, the error (if any) that
  \<open>http.NewRequest\<close> finds in a URL, and \<open>client.Do\<close> by request.
\<close>

record world =
  dial :: "string \<Rightarrow> conn blocking"
  url_error :: "string \<Rightarrow> string option"
  roundtrip :: "request \<Rightarrow> response blocking"

section \<open>Runs\<close>

text \<open>
  What a call did, in order, and how it ended: \<open>None\<close> when it never returns.
\<close>

datatype action =
    ADial string
  | APack
  | AWrite "byte list"
  | ARead nat
  | AUnpack "byte list"
  | AClose
  | ADo request
  | AReadAll
  | ABodyClose

type_synonym 'a run = "'a option \<times> action list"

definition after :: "action \<Rightarrow> 'a run \<Rightarrow> 'a run" where
  "after a r = (fst r, a # snd r)"

text \<open>A deferred call runs when the function returns, on every path that returns.\<close>

definition deferred :: "action \<Rightarrow> 'a run \<Rightarrow> 'a run" where
  "deferred a r = (case fst r of None \<Rightarrow> r | Some v \<Rightarrow> (Some v, snd r @ [a]))"

section \<open>DNSOverTCP\<close>

definition DNSOverTCP ::
  "'m codec \<Rightarrow> world \<Rightarrow> string \<Rightarrow> string \<Rightarrow> 16 word \<Rightarrow> (error + 'm) run" where
  "DNSOverTCP cd w domain dnsServer qt =
     (let m = \<lparr>qname = Fqdn cd domain, qtype = qt, recursion_desired = True\<rparr> in
      after (ADial (dnsServer @ '':53''))
       (case dial w (dnsServer @ '':53'') of
          Hangs \<Rightarrow> (None, [])
        | Fails e \<Rightarrow> (Some (Inl (ConnectFailed e)), [])
        | Done c \<Rightarrow>
           deferred AClose
            (after APack
              (case Pack cd m of
                 Inl e \<Rightarrow> (Some (Inl (PackFailed e)), [])
               | Inr msgBytes \<Rightarrow>
                  (let length16 = (of_nat (length msgBytes) :: 16 word);
                       buf = [ucast (drop_bit 8 length16), ucast (length16 AND 0xFF)]
                               @ msgBytes in
                   after (AWrite buf)
                    (case write_outcome c of
                       Hangs \<Rightarrow> (None, [])
                     | Fails e \<Rightarrow> (Some (Inl (SendFailed e)), [])
                     | Done u \<Rightarrow>
                        after (ARead 2)
                         (case conn_Read 2 (incoming c) of
                            Hangs \<Rightarrow> (None, [])
                          | Fails e \<Rightarrow> (Some (Inl (ReadLengthFailed e)), [])
                          | Done (got, s1) \<Rightarrow>
                             (let lengthBytes = fill (make_bytes 2) got;
                                  respLength = push_bit 8 (uint (lengthBytes ! 0))
                                                 OR uint (lengthBytes ! 1) in
                              after (ARead (nat respLength))
                               (case conn_Read (nat respLength) s1 of
                                  Hangs \<Rightarrow> (None, [])
                                | Fails e \<Rightarrow> (Some (Inl (ReadResponseFailed e)), [])
                                | Done (got', s2) \<Rightarrow>
                                   (let respBytes = fill (make_bytes (nat respLength)) got' in
                                    after (AUnpack respBytes)
                                     (case Unpack cd respBytes of
                                        Inl e \<Rightarrow> (Some (Inl (UnpackFailed e)), [])
                                      | Inr resp \<Rightarrow> (Some (Inr resp), []))))))))))))"

section \<open>Base64 (encoding/base64, RawURLEncoding)\<close>

text \<open>
  The URL-safe alphabet of RFC 4648, and the standard library's encoder without
  padding: three bytes give four characters, a rest of two bytes gives three and a
  rest of one byte gives two.
\<close>

definition encodeURL :: string where
  "encodeURL = ''ABCDEFGHIJKLMNOPQRSTUVWXYZabcdefghijklmnopqrstuvwxyz0123456789-_''"

definition enc :: "64 word \<Rightarrow> char" where
  "enc v = encodeURL ! unat v"

fun EncodeToString :: "byte list \<Rightarrow> string" where
  "EncodeToString (a # b # c # src) =
     (let val = push_bit 16 (ucast a) OR push_bit 8 (ucast b) OR ucast c in
      enc (drop_bit 18 val AND 0x3F) # enc (drop_bit 12 val AND 0x3F) #
      enc (drop_bit 6 val AND 0x3F) # enc (val AND 0x3F) # EncodeToString src)"
| "EncodeToString [a, b] =
     (let val = push_bit 16 (ucast a) OR push_bit 8 (ucast b) in
      [enc (drop_bit 18 val AND 0x3F), enc (drop_bit 12 val AND 0x3F),
       enc (drop_bit 6 val AND 0x3F)])"
| "EncodeToString [a] =
     (let val = push_bit 16 (ucast a) in
      [enc (drop_bit 18 val AND 0x3F), enc (drop_bit 12 val AND 0x3F)])"
| "EncodeToString [] = []"

text \<open>
  The decoder of the same encoding, against which the encoder's output is read back:
  each character stands for its index in the alphabet, four characters give three
  bytes, a rest of three gives two and a rest of two gives one; a character outside
  the alphabet (the padding character \<open>=\<close> among them) or a rest of one is refused.
\<close>

definition decodeMap :: "char \<Rightarrow> 64 word option" where
  "decodeMap ch = map_option of_nat (map_of (zip encodeURL [0 ..< 64]) ch)"

fun DecodeString :: "string \<Rightarrow> byte list option" where
  "DecodeString (p # q # r # s # rest) =
     (case (decodeMap p, decodeMap q, decodeMap r, decodeMap s, DecodeString rest) of
        (Some a, Some b, Some c, Some d, Some bs) \<Rightarrow>
          (let val = push_bit 18 a OR push_bit 12 b OR push_bit 6 c OR d in
           Some (ucast (drop_bit 16 val) # ucast (drop_bit 8 val) # ucast val # bs))
      | _ \<Rightarrow> None)"
| "DecodeString [p, q, r] =
     (case (decodeMap p, decodeMap q, decodeMap r) of
        (Some a, Some b, Some c) \<Rightarrow>
          (let val = push_bit 18 a OR push_bit 12 b OR push_bit 6 c in
           Some [ucast (drop_bit 16 val), ucast (drop_bit 8 val)])
      | _ \<Rightarrow> None)"
| "DecodeString [p, q] =
     (case (decodeMap p, decodeMap q) of
        (Some a, Some b) \<Rightarrow>
          (let val = push_bit 18 a OR push_bit 12 b in
           Some [ucast (drop_bit 16 val)])
      | _ \<Rightarrow> None)"
| "DecodeString [p] = None"
| "DecodeString [] = Some []"

section \<open>DNSOverHTTPS\<close>

definition DNSOverHTTPS ::
  "'m codec \<Rightarrow> world \<Rightarrow> string \<Rightarrow> string \<Rightarrow> 16 word \<Rightarrow> (error + 'm) run" where
  "DNSOverHTTPS cd w domain dohURL qt =
     (let m = \<lparr>qname = Fqdn cd domain, qtype = qt, recursion_desired = True\<rparr> in
      after APack
       (case Pack cd m of
          Inl e \<Rightarrow> (Some (Inl (PackFailed e)), [])
        | Inr msgBytes \<Rightarrow>
           (let encoded = EncodeToString msgBytes;
                fullURL = dohURL @ ''?dns='' @ encoded in
            case url_error w fullURL of
              Some e \<Rightarrow> (Some (Inl (CreateRequestFailed e)), [])
            | None \<Rightarrow>
               (let req = \<lparr>rmethod = ''GET'', url = fullURL,
                           headers = [(''Accept'', ''application/dns-message'')]\<rparr> in
                after (ADo req)
                 (case roundtrip w req of
                    Hangs \<Rightarrow> (None, [])
                  | Fails e \<Rightarrow> (Some (Inl (HTTPRequestFailed e)), [])
                  | Done resp \<Rightarrow>
                     deferred ABodyClose
                      (if status_code resp \<noteq> 200 then
                         after AReadAll
                          (case ReadAll (body resp) of
                             None \<Rightarrow> (None, [])
                           | Some (bd, err) \<Rightarrow>
                               (Some (Inl (NonOKStatus (status resp) bd)), []))
                       else
                         after AReadAll
                          (case ReadAll (body resp) of
                             None \<Rightarrow> (None, [])
                           | Some (respBytes, Some e) \<Rightarrow>
                               (Some (Inl (ReadResponseFailed e)), [])
                           | Some (respBytes, None) \<Rightarrow>
                               after (AUnpack respBytes)
                                (case Unpack cd respBytes of
                                   Inl e \<Rightarrow> (Some (Inl (UnpackFailed e)), [])
                                 | Inr respMsg \<Rightarrow> (Some (Inr respMsg), [])))))))))"

section \<open>main\<close>

text \<open>
  How the process ends: the usage message and exit status 1, the index panic of
  \<open>os.Args[0]\<close> on an empty argument vector, one of the two \<open>log.Fatalf\<close> calls, or the
  answers printed for the domain.
\<close>

datatype 'm exit =
    Usage string
  | IndexPanic
  | FatalUnknownMethod string
  | FatalQueryFailed error
  | Printed string 'm

definition TypeA :: "16 word" where
  "TypeA = 1"

text \<open>The code after the switch: fatal on an error, the response printed otherwise.\<close>

definition finish :: "string \<Rightarrow> (error + 'm) run \<Rightarrow> 'm exit run" where
  "finish domain r =
     (case fst r of
        None \<Rightarrow> (None, snd r)
      | Some (Inl err) \<Rightarrow> (Some (FatalQueryFailed err), snd r)
      | Some (Inr response) \<Rightarrow> (Some (Printed domain response), snd r))"

definition main :: "'m codec \<Rightarrow> world \<Rightarrow> string list \<Rightarrow> 'm exit run" where
  "main cd w args =
     (case args of
        [] \<Rightarrow> (Some IndexPanic, [])
      | [prog] \<Rightarrow> (Some (Usage prog), [])
      | prog # domain # others \<Rightarrow>
         (let method = (case others of [] \<Rightarrow> ''tcp'' | a # rest \<Rightarrow> a) in
          if method = ''tcp'' then
            finish domain (DNSOverTCP cd w domain ''8.8.8.8'' TypeA)
          else if method = ''http'' then
            finish domain
              (DNSOverHTTPS cd w domain ''https://cloudflare-dns.com/dns-query'' TypeA)
          else (Some (FatalUnknownMethod method), [])))"

section \<open>Auxiliary\<close>

text \<open>Three bytes laid out in one 24-bit value, as the encoder does.\<close>

definition join3 :: "byte \<Rightarrow> byte \<Rightarrow> byte \<Rightarrow> 64 word" where
  "join3 a b c = push_bit 16 (ucast a) OR push_bit 8 (ucast b) OR ucast c"

section \<open>Reading a run\<close>

text \<open>The byte strings written to the connection, and the requests sent, in order.\<close>

fun writes :: "action list \<Rightarrow> byte list list" where
  "writes [] = []"
| "writes (AWrite bs # as) = bs # writes as"
| "writes (a # as) = writes as"

fun requests :: "action list \<Rightarrow> request list" where
  "requests [] = []"
| "requests (ADo r # as) = r # requests as"
| "requests (a # as) = requests as"

fun decoded :: "action list \<Rightarrow> byte list list" where
  "decoded [] = []"
| "decoded (AUnpack bs # as) = bs # decoded as"
| "decoded (a # as) = decoded as"

text \<open>
  The request of the DoH interface for a DoH URL and a value of the \<open>dns\<close> parameter:
  \<open>GET <dohURL>?dns=<value>\<close> with the header \<open>Accept: application/dns-message\<close>.
\<close>

definition doh_get :: "string \<Rightarrow> string \<Rightarrow> request" where
  "doh_get dohURL v =
     \<lparr>rmethod = ''GET'', url = dohURL @ ''?dns='' @ v,
      headers = [(''Accept'', ''application/dns-message'')]\<rparr>"

section \<open>Sample collaborators\<close>

text \<open>
  A codec that packs every query to three bytes and decodes a buffer to itself, so that
  a run shows the bytes the decoder is handed; one that refuses every query; one whose
  packed query is 65536 bytes long.
\<close>

definition echo_codec :: "(byte list) codec" where
  "echo_codec =
     \<lparr>Fqdn = (\<lambda>d. d @ ''.''), Pack = (\<lambda>q. Inr [1, 2, 3]), Unpack = (\<lambda>bs. Inr bs)\<rparr>"

definition refusing_codec :: "(byte list) codec" where
  "refusing_codec =
     \<lparr>Fqdn = (\<lambda>d. d @ ''.''), Pack = (\<lambda>q. Inl ''bad rdata''),
      Unpack = (\<lambda>bs. Inr bs)\<rparr>"

definition long_codec :: "(byte list) codec" where
  "long_codec =
     \<lparr>Fqdn = (\<lambda>d. d @ ''.''), Pack = (\<lambda>q. Inr (replicate 65536 0)),
      Unpack = (\<lambda>bs. Inr bs)\<rparr>"

text \<open>
  A network on which every dial succeeds, every write succeeds and the peer sends the
  given stream; and one on which every HTTP round trip gives the given response.
\<close>

definition tcp_world :: "stream \<Rightarrow> world" where
  "tcp_world s =
     \<lparr>dial = (\<lambda>a. Done \<lparr>write_outcome = Done (), incoming = s\<rparr>),
      url_error = (\<lambda>u. None), roundtrip = (\<lambda>r. Fails ''no route to host'')\<rparr>"

definition http_world :: "response blocking \<Rightarrow> world" where
  "http_world r =
     \<lparr>dial = (\<lambda>a. Fails ''connection refused''),
      url_error = (\<lambda>u. None), roundtrip = (\<lambda>q. r)\<rparr>"

text \<open>A network on which every dial succeeds and every write fails.\<close>

definition broken_pipe_world :: world where
  "broken_pipe_world =
     \<lparr>dial = (\<lambda>a. Done \<lparr>write_outcome = Fails ''broken pipe'',
                            incoming = \<lparr>pending = [], ending = PeerCloses\<rparr>\<rparr>),
      url_error = (\<lambda>u. None), roundtrip = (\<lambda>r. Fails ''no route to host'')\<rparr>"

text \<open>A network on which every dial succeeds and no write ever returns.\<close>

definition write_hang_world :: world where
  "write_hang_world =
     \<lparr>dial = (\<lambda>a. Done \<lparr>write_outcome = Hangs,
                            incoming = \<lparr>pending = [], ending = PeerCloses\<rparr>\<rparr>),
      url_error = (\<lambda>u. None), roundtrip = (\<lambda>r. Fails ''no route to host'')\<rparr>"

text \<open>A network on which no dial and no round trip ever returns.\<close>

definition hanging_world :: world where
  "hanging_world =
     \<lparr>dial = (\<lambda>a. Hangs), url_error = (\<lambda>u. None), roundtrip = (\<lambda>q. Hangs)\<rparr>"

text \<open>A response with status 200 whose body arrives in two pieces, and one with status 500.\<close>

definition ok_response :: response where
  "ok_response =
     \<lparr>status_code = 200, status = ''200 OK'',
      body = \<lparr>pending = [[7], [9]], ending = PeerCloses\<rparr>\<rparr>"

definition error_response :: response where
  "error_response =
     \<lparr>status_code = 500, status = ''500 Internal Server Error'',
      body = \<lparr>pending = [[111, 111], [112, 115]], ending = PeerCloses\<rparr>\<rparr>"

definition stalled_response :: response where
  "stalled_response =
     \<lparr>status_code = 200, status = ''200 OK'',
      body = \<lparr>pending = [[7]], ending = PeerSilent\<rparr>\<rparr>"

text \<open>A response with status 200 whose body read ends in an error of the library.\<close>

definition failing_body_response :: response where
  "failing_body_response =
     \<lparr>status_code = 200, status = ''200 OK'',
      body = \<lparr>pending = [[7]], ending = PeerFails ''i/o timeout''\<rparr>\<rparr>"

definition large_response :: response where
  "large_response =
     \<lparr>status_code = 200, status = ''200 OK'',
      body = \<lparr>pending = [replicate 65537 0], ending = PeerCloses\<rparr>\<rparr>"

section \<open>Arithmetic of the length prefix\<close>

lemma ucast_byte: "unat (ucast (w :: 16 word) :: byte) = unat w mod 256"
  by (simp add: unsigned_ucast_eq take_bit_eq_mod)

lemma prefix_hi:
  "unat (ucast (drop_bit 8 (of_nat n :: 16 word)) :: byte) = (n mod 65536) div 256"
proof -
  have "unat (ucast (drop_bit 8 (of_nat n :: 16 word)) :: byte)
          = unat (drop_bit 8 (of_nat n :: 16 word)) mod 256"
    by (rule ucast_byte)
  also have "\<dots> = drop_bit 8 (unat (of_nat n :: 16 word)) mod 256"
    by (simp only: unat_drop_bit_eq)
  also have "\<dots> = ((n mod 65536) div 256) mod 256"
    by (simp add: unat_of_nat drop_bit_eq_div)
  also have "\<dots> = (n mod 65536) div 256"
    by (rule mod_less) (simp add: less_mult_imp_div_less)
  finally show ?thesis .
qed

lemma prefix_lo:
  "unat (ucast ((of_nat n :: 16 word) AND 0xFF) :: byte) = n mod 256"
proof -
  have m8: "(0xFF :: 16 word) = mask 8"
    by (simp add: mask_eq_exp_minus_1)
  have "unat ((of_nat n :: 16 word) AND mask 8) = take_bit 8 (unat (of_nat n :: 16 word))"
    by (simp only: unsigned_take_bit_eq flip: take_bit_eq_mask)
  also have "\<dots> = (n mod 65536) mod 256"
    by (simp add: unat_of_nat take_bit_eq_mod)
  finally have "unat ((of_nat n :: 16 word) AND 0xFF) = (n mod 65536) mod 256"
    by (simp only: m8)
  then have "unat (ucast ((of_nat n :: 16 word) AND 0xFF) :: byte)
               = ((n mod 65536) mod 256) mod 256"
    by (simp only: ucast_byte)
  also have "\<dots> = n mod 256"
    by (simp add: mod_mod_cancel)
  finally show ?thesis .
qed

text \<open>The two prefix bytes, read big-endian, are the message length modulo \<open>2^16\<close>.\<close>

lemma prefix_value:
  "unat (ucast (drop_bit 8 (of_nat n :: 16 word)) :: byte) * 256
     + unat (ucast ((of_nat n :: 16 word) AND 0xFF) :: byte) = n mod 65536"
proof -
  have "(n mod 65536) mod 256 = n mod 256"
    by (simp add: mod_mod_cancel)
  then have "(n mod 65536) div 256 * 256 + n mod 256 = n mod 65536"
    using div_mult_mod_eq [of "n mod 65536" 256] by simp
  then show ?thesis
    by (simp only: prefix_hi prefix_lo)
qed


section \<open>Base64: the alphabet and the groups of bits\<close>

lemma m6: "(0x3F :: 64 word) = mask 6"
  by (simp add: mask_eq_exp_minus_1)

lemma length_encodeURL: "length encodeURL = 64"
  by (simp add: encodeURL_def)

lemma distinct_encodeURL: "distinct encodeURL"
  by (simp add: encodeURL_def)

lemma pad_not_in_encodeURL: "CHR ''='' \<notin> set encodeURL"
  by (simp add: encodeURL_def)

lemma sextet_less: "unat ((v :: 64 word) AND 0x3F) < 64"
proof -
  have "unat (v AND mask 6) = take_bit 6 (unat v)"
    by (simp only: unsigned_take_bit_eq flip: take_bit_eq_mask)
  then show ?thesis by (simp add: m6 take_bit_eq_mod)
qed

lemma enc_in_alphabet: "enc (v AND 0x3F) \<in> set encodeURL"
  unfolding enc_def using sextet_less [of v] by (simp only: nth_mem length_encodeURL)

lemma decodeMap_enc: "decodeMap (enc (v AND 0x3F)) = Some (v AND 0x3F)"
proof -
  let ?i = "unat (v AND 0x3F)"
  have i: "?i < 64" by (rule sextet_less)
  have "map_of (zip encodeURL [0 ..< 64]) (encodeURL ! ?i) = Some ([0 ..< 64] ! ?i)"
    by (rule map_of_zip_nth) (simp_all add: length_encodeURL distinct_encodeURL i)
  also have "[0 ..< 64] ! ?i = ?i"
    using i by simp
  finally show ?thesis
    by (simp add: decodeMap_def enc_def)
qed

lemma bit_join3:
  "bit (join3 a b c) n \<longleftrightarrow>
     (n < 8 \<and> bit c n) \<or> (8 \<le> n \<and> n < 16 \<and> bit b (n - 8))
       \<or> (16 \<le> n \<and> n < 24 \<and> bit a (n - 16))"
  by (auto simp: join3_def bit_or_iff bit_push_bit_iff bit_unsigned_iff
      dest: bit_imp_le_length)

lemma join3_hi: "ucast (drop_bit 16 (join3 a b c)) = a"
  by (rule bit_word_eqI)
    (auto simp: bit_unsigned_iff bit_drop_bit_eq bit_join3 dest: bit_imp_le_length)

lemma join3_mid: "ucast (drop_bit 8 (join3 a b c)) = b"
  by (rule bit_word_eqI)
    (auto simp: bit_unsigned_iff bit_drop_bit_eq bit_join3 dest: bit_imp_le_length)

lemma join3_lo: "ucast (join3 a b c) = c"
  by (rule bit_word_eqI) (auto simp: bit_unsigned_iff bit_join3 dest: bit_imp_le_length)

lemma sextets_join:
  fixes v :: "64 word"
  assumes "\<And>n. bit v n \<Longrightarrow> n < 24"
  shows "push_bit 18 (drop_bit 18 v AND 0x3F) OR push_bit 12 (drop_bit 12 v AND 0x3F)
           OR push_bit 6 (drop_bit 6 v AND 0x3F) OR (v AND 0x3F) = v"
proof (rule bit_word_eqI)
  fix n assume "n < LENGTH(64)"
  consider "n < 6" | "6 \<le> n" "n < 12" | "12 \<le> n" "n < 18" | "18 \<le> n" "n < 24"
    | "24 \<le> n"
    by linarith
  then show "bit (push_bit 18 (drop_bit 18 v AND 0x3F)
                    OR push_bit 12 (drop_bit 12 v AND 0x3F)
                    OR push_bit 6 (drop_bit 6 v AND 0x3F) OR (v AND 0x3F)) n = bit v n"
    using assms [of n]
    by cases
      (auto simp: m6 bit_or_iff bit_and_iff bit_push_bit_iff bit_drop_bit_eq bit_mask_iff)
qed

lemma low_sextet_0:
  "(\<And>n. n < 6 \<Longrightarrow> \<not> bit (v :: 64 word) n) \<Longrightarrow> v AND 0x3F = 0"
  by (rule bit_word_eqI) (auto simp: m6 bit_and_iff bit_mask_iff)

lemma join3_b0: "join3 a b 0 AND 0x3F = 0"
  by (rule low_sextet_0) (simp add: bit_join3)

lemma join3_00: "drop_bit 6 (join3 a 0 0) AND 0x3F = 0"
  by (rule low_sextet_0) (simp add: bit_join3 bit_drop_bit_eq)

lemma bit_join3_less: "bit (join3 a b c) n \<Longrightarrow> n < 24"
  by (auto simp: bit_join3)

lemma EncodeToString_no_pad: "CHR ''='' \<notin> set (EncodeToString bs)"
proof (induction bs rule: EncodeToString.induct)
  case (1 a b c src)
  then show ?case
    using enc_in_alphabet pad_not_in_encodeURL by (auto simp: Let_def)
next
  case (2 a b)
  then show ?case
    using enc_in_alphabet pad_not_in_encodeURL by (auto simp: Let_def)
next
  case (3 a)
  then show ?case
    using enc_in_alphabet pad_not_in_encodeURL by (auto simp: Let_def)
next
  case 4
  then show ?case by simp
qed

lemma Decode_Encode: "DecodeString (EncodeToString bs) = Some bs"
proof (induction bs rule: EncodeToString.induct)
  case (1 a b c src)
  have v: "push_bit 16 (ucast a) OR push_bit 8 (ucast b) OR ucast c = join3 a b c"
    by (simp add: join3_def)
  show ?case
    using 1 sextets_join [of "join3 a b c", OF bit_join3_less]
    by (simp add: Let_def v decodeMap_enc join3_hi join3_mid join3_lo)
next
  case (2 a b)
  have v: "push_bit 16 (ucast a) OR push_bit 8 (ucast b) = join3 a b 0"
    by (simp add: join3_def)
  show ?case
    using sextets_join [of "join3 a b 0", OF bit_join3_less]
    by (simp add: Let_def v decodeMap_enc join3_hi join3_mid join3_b0)
next
  case (3 a)
  have v: "push_bit 16 (ucast a) = join3 a 0 0"
    by (simp add: join3_def)
  show ?case
    using sextets_join [of "join3 a 0 0", OF bit_join3_less]
    by (simp add: Let_def v decodeMap_enc join3_hi join3_b0 join3_00)
next
  case 4
  show ?case by simp
qed

section \<open>Facts about the runs\<close>

lemmas tcp_defs = DNSOverTCP_def Let_def after_def deferred_def

lemmas doh_defs = DNSOverHTTPS_def Let_def after_def deferred_def ReadAll_def doh_get_def

lemmas sample_defs = echo_codec_def refusing_codec_def long_codec_def tcp_world_def
  http_world_def broken_pipe_world_def write_hang_world_def hanging_world_def ok_response_def error_response_def
  stalled_response_def failing_body_response_def large_response_def

lemma writes_after_connect:
  assumes "dial w (dnsServer @ '':53'') = Done c"
    and "Pack cd \<lparr>qname = Fqdn cd domain, qtype = qt, recursion_desired = True\<rparr>
           = Inr msgBytes"
  shows "writes (snd (DNSOverTCP cd w domain dnsServer qt))
          = [ucast (drop_bit 8 (of_nat (length msgBytes) :: 16 word))
              # ucast ((of_nat (length msgBytes) :: 16 word) AND 0xFF) # msgBytes]"
  using assms
  by (simp add: tcp_defs split: blocking.splits sum.splits option.splits prod.splits)

lemma write_failure:
  assumes "dial w (dnsServer @ '':53'') = Done c"
    and "Pack cd \<lparr>qname = Fqdn cd domain, qtype = qt, recursion_desired = True\<rparr>
           = Inr msgBytes"
    and "write_outcome c = Fails e"
  shows "DNSOverTCP cd w domain dnsServer qt
          = (Some (Inl (SendFailed e)),
             [ADial (dnsServer @ '':53''), APack,
              AWrite (ucast (drop_bit 8 (of_nat (length msgBytes) :: 16 word))
                # ucast ((of_nat (length msgBytes) :: 16 word) AND 0xFF) # msgBytes),
              AClose])"
  using assms by (simp add: tcp_defs)

lemma reads_need_write:
  assumes "dial w (dnsServer @ '':53'') = Done c"
    and "Pack cd \<lparr>qname = Fqdn cd domain, qtype = qt, recursion_desired = True\<rparr>
           = Inr msgBytes"
    and "ARead n \<in> set (snd (DNSOverTCP cd w domain dnsServer qt))"
  shows "write_outcome c = Done ()"
  using assms by (cases "write_outcome c") (simp_all add: tcp_defs)

lemma write_attempted:
  assumes "dial w (dnsServer @ '':53'') = Done c"
    and "Pack cd \<lparr>qname = Fqdn cd domain, qtype = qt, recursion_desired = True\<rparr>
           = Inr msgBytes"
  shows "take 3 (snd (DNSOverTCP cd w domain dnsServer qt))
          = [ADial (dnsServer @ '':53''), APack,
             AWrite (ucast (drop_bit 8 (of_nat (length msgBytes) :: 16 word))
                # ucast ((of_nat (length msgBytes) :: 16 word) AND 0xFF) # msgBytes)]"
  using assms
  by (simp add: tcp_defs split: blocking.splits sum.splits option.splits prod.splits)



section \<open>The response body read of DNSOverTCP\<close>

text \<open>
  C1. The claim: after the length prefix, DNSOverTCP collects the body in a loop until
  exactly \<open>length\<close> bytes have arrived, so that the decoder is handed the full body
  also when the peer delivers it over several partial reads, and a connection closed
  before \<open>length\<close> bytes arrive gives an error instead of a decoded partial buffer.
  The code calls \<open>conn.Read\<close> once on a buffer of \<open>respLength\<close> bytes and ignores the
  count it returns. Here the peer announces two bytes and delivers \<open>7\<close> and \<open>9\<close>
  separately: the decoder is handed \<open>[7, 0]\<close>. When the peer closes after the \<open>7\<close>,
  the decoder is handed the same partial buffer and no error is returned.
\<close>

theorem C1_short_body_read:
  "DNSOverTCP echo_codec (tcp_world \<lparr>pending = [[0, 2], [7], [9]], ending = PeerCloses\<rparr>)
       ''example.com'' ''8.8.8.8'' TypeA
     = (Some (Inr [7, 0]),
        [ADial ''8.8.8.8:53'', APack, AWrite [0, 3, 1, 2, 3], ARead 2, ARead 2,
         AUnpack [7, 0], AClose])
   \<and> DNSOverTCP echo_codec (tcp_world \<lparr>pending = [[0, 2], [7]], ending = PeerCloses\<rparr>)
       ''example.com'' ''8.8.8.8'' TypeA
     = (Some (Inr [7, 0]),
        [ADial ''8.8.8.8:53'', APack, AWrite [0, 3, 1, 2, 3], ARead 2, ARead 2,
         AUnpack [7, 0], AClose])"
  by (simp add: tcp_defs conn_Read_def fill_def make_bytes_def sample_defs)

section \<open>The dispatch in main\<close>

text \<open>
  C2, as the code has it. With a method argument, \<open>tcp\<close> runs DNSOverTCP against the
  host 8.8.8.8 and \<open>http\<close> runs DNSOverHTTPS against
  https://cloudflare-dns.com/dns-query, both for record type A; every other method name
  ends the process in \<open>log.Fatalf\<close> with no network action at all. Without a method
  argument the method is \<open>tcp\<close>.
\<close>

theorem C2_dispatch:
  "(method = ''tcp'' \<longrightarrow>
      main cd w (prog # domain # method # rest)
        = finish domain (DNSOverTCP cd w domain ''8.8.8.8'' TypeA))
   \<and> (method = ''http'' \<longrightarrow>
      main cd w (prog # domain # method # rest)
        = finish domain
            (DNSOverHTTPS cd w domain ''https://cloudflare-dns.com/dns-query'' TypeA))
   \<and> (method \<noteq> ''tcp'' \<and> method \<noteq> ''http'' \<longrightarrow>
      main cd w (prog # domain # method # rest) = (Some (FatalUnknownMethod method), []))
   \<and> main cd w [prog, domain] = finish domain (DNSOverTCP cd w domain ''8.8.8.8'' TypeA)"
  by (simp add: main_def)

theorem C2_dispatch_witness:
  "main echo_codec (http_world (Done ok_response)) [''dns'', ''example.com'', ''tcp'']
     = finish ''example.com''
         (DNSOverTCP echo_codec (http_world (Done ok_response)) ''example.com''
            ''8.8.8.8'' TypeA)
   \<and> main echo_codec (http_world (Done ok_response)) [''dns'', ''example.com'', ''http'']
     = finish ''example.com''
         (DNSOverHTTPS echo_codec (http_world (Done ok_response)) ''example.com''
            ''https://cloudflare-dns.com/dns-query'' TypeA)
   \<and> main echo_codec (http_world (Done ok_response)) [''dns'', ''example.com'', ''udp'']
     = (Some (FatalUnknownMethod ''udp''), [])"
  using
    C2_dispatch [of "''tcp''" echo_codec "http_world (Done ok_response)" "''dns''"
      "''example.com''" "[]"]
    C2_dispatch [of "''http''" echo_codec "http_world (Done ok_response)" "''dns''"
      "''example.com''" "[]"]
    C2_dispatch [of "''udp''" echo_codec "http_world (Done ok_response)" "''dns''"
      "''example.com''" "[]"]
  by simp

text \<open>
  The method name \<open>doh\<close> is not one the code knows: against a DoH server that would
  answer, no request is made and the process ends in \<open>log.Fatalf\<close>.
\<close>

theorem C2_doh_counterexample:
  "main echo_codec (http_world (Done ok_response)) [''dns'', ''example.com'', ''doh'']
    = (Some (FatalUnknownMethod ''doh''), [])"
  by (simp add: main_def)

section \<open>Blocking without a deadline\<close>




section \<open>The length prefix read of DNSOverTCP\<close>

text \<open>
  C4. The claim: the two bytes of the response length prefix are collected the way the
  body is, not taken from one read call, and fewer than two bytes before the peer
  closes give a read error. The code calls \<open>conn.Read\<close> once on a two-byte buffer and
  uses both bytes of the buffer whatever the count returned. Here the peer sends the
  frame \<open>[0, 2, 7, 9]\<close> one prefix byte at a time: the length is read as \<open>0\<close> and the
  decoder is handed the empty buffer. When the peer sends the single byte \<open>0\<close> and
  closes, the same happens and no read error is returned.
\<close>

theorem C4_short_prefix_read:
  "DNSOverTCP echo_codec (tcp_world \<lparr>pending = [[0], [2], [7, 9]], ending = PeerCloses\<rparr>)
       ''example.com'' ''8.8.8.8'' TypeA
     = (Some (Inr []),
        [ADial ''8.8.8.8:53'', APack, AWrite [0, 3, 1, 2, 3], ARead 2, ARead 0,
         AUnpack [], AClose])
   \<and> DNSOverTCP echo_codec (tcp_world \<lparr>pending = [[0]], ending = PeerCloses\<rparr>)
       ''example.com'' ''8.8.8.8'' TypeA
     = (Some (Inr []),
        [ADial ''8.8.8.8:53'', APack, AWrite [0, 3, 1, 2, 3], ARead 2, ARead 0,
         AUnpack [], AClose])"
  by (simp add: tcp_defs conn_Read_def fill_def make_bytes_def sample_defs)

section \<open>The response body read of DNSOverHTTPS\<close>

text \<open>
  C5, as the code has it. The success path reads the body with \<open>ioutil.ReadAll\<close> and
  no size guard: for a response with status 200 whose body ends with the end of the
  stream, the whole body, whatever its length, is read and handed to the decoder, and
  the call returns what the decoder returns.
\<close>

theorem C5_body_read_unbounded:
  assumes "Pack cd \<lparr>qname = Fqdn cd domain, qtype = qt, recursion_desired = True\<rparr>
             = Inr msgBytes"
    and "url_error w (dohURL @ ''?dns='' @ EncodeToString msgBytes) = None"
    and "roundtrip w (doh_get dohURL (EncodeToString msgBytes)) = Done resp"
    and "status_code resp = 200"
    and "ending (body resp) = PeerCloses"
  shows "DNSOverHTTPS cd w domain dohURL qt
          = (Some (case Unpack cd (concat (pending (body resp))) of
                     Inl e \<Rightarrow> Inl (UnpackFailed e)
                   | Inr respMsg \<Rightarrow> Inr respMsg),
             [APack, ADo (doh_get dohURL (EncodeToString msgBytes)), AReadAll,
              AUnpack (concat (pending (body resp))), ABodyClose])"
  using assms by (simp add: doh_defs split: sum.splits)

theorem C5_body_read_unbounded_witness:
  "DNSOverHTTPS echo_codec (http_world (Done ok_response)) ''example.com''
       ''https://cloudflare-dns.com/dns-query'' TypeA
     = (Some (Inr [7, 9]),
        [APack, ADo (doh_get ''https://cloudflare-dns.com/dns-query'' ''AQID''), AReadAll,
         AUnpack [7, 9], ABodyClose])"
proof -
  have "DNSOverHTTPS echo_codec (http_world (Done ok_response)) ''example.com''
          ''https://cloudflare-dns.com/dns-query'' TypeA
        = (Some (case Unpack echo_codec (concat (pending (body ok_response))) of
                   Inl e \<Rightarrow> Inl (UnpackFailed e)
                 | Inr respMsg \<Rightarrow> Inr respMsg),
           [APack,
            ADo (doh_get ''https://cloudflare-dns.com/dns-query'' (EncodeToString [1, 2, 3])),
            AReadAll, AUnpack (concat (pending (body ok_response))), ABodyClose])"
    by (rule C5_body_read_unbounded) (simp_all add: sample_defs)
  then show ?thesis
    by (simp add: sample_defs enc_def encodeURL_def)
qed

text \<open>
  A body of 65537 bytes, one more than 64 KiB, under status 200: it is read in full and
  all of it reaches the decoder.
\<close>

theorem C5_large_body_counterexample:
  "64 * 1024 < length (replicate 65537 (0 :: byte))
   \<and> DNSOverHTTPS echo_codec (http_world (Done large_response)) ''example.com''
       ''https://cloudflare-dns.com/dns-query'' TypeA
     = (Some (Inr (replicate 65537 0)),
        [APack, ADo (doh_get ''https://cloudflare-dns.com/dns-query'' ''AQID''), AReadAll,
         AUnpack (replicate 65537 0), ABodyClose])"
  by (simp add: doh_defs sample_defs enc_def encodeURL_def)

section \<open>A status other than 200\<close>

text \<open>
  C6. For every response whose status code is not 200 the body never reaches the
  decoder, and once the body has been read (to its end or to a read error, which the
  code ignores) the call returns the non-OK-status error carrying \<open>resp.Status\<close> and
  the bytes of the body.
\<close>

theorem C6_non_ok_status:
  assumes "Pack cd \<lparr>qname = Fqdn cd domain, qtype = qt, recursion_desired = True\<rparr>
             = Inr msgBytes"
    and "url_error w (dohURL @ ''?dns='' @ EncodeToString msgBytes) = None"
    and "roundtrip w (doh_get dohURL (EncodeToString msgBytes)) = Done resp"
    and "status_code resp \<noteq> 200"
  shows "decoded (snd (DNSOverHTTPS cd w domain dohURL qt)) = []
         \<and> (ending (body resp) \<noteq> PeerSilent \<longrightarrow>
              fst (DNSOverHTTPS cd w domain dohURL qt)
                = Some (Inl (NonOKStatus (status resp) (concat (pending (body resp))))))"
  using assms by (simp add: doh_defs split: ending.splits)

theorem C6_non_ok_status_witness:
  "decoded (snd (DNSOverHTTPS echo_codec (http_world (Done error_response)) ''example.com''
       ''https://cloudflare-dns.com/dns-query'' TypeA)) = []
   \<and> fst (DNSOverHTTPS echo_codec (http_world (Done error_response)) ''example.com''
       ''https://cloudflare-dns.com/dns-query'' TypeA)
     = Some (Inl (NonOKStatus ''500 Internal Server Error'' [111, 111, 112, 115]))"
proof -
  have "decoded (snd (DNSOverHTTPS echo_codec (http_world (Done error_response))
            ''example.com'' ''https://cloudflare-dns.com/dns-query'' TypeA)) = []
        \<and> (ending (body error_response) \<noteq> PeerSilent \<longrightarrow>
             fst (DNSOverHTTPS echo_codec (http_world (Done error_response))
               ''example.com'' ''https://cloudflare-dns.com/dns-query'' TypeA)
              = Some (Inl (NonOKStatus (status error_response)
                   (concat (pending (body error_response))))))"
    by (rule C6_non_ok_status [where msgBytes = "[1, 2, 3]"]) (simp_all add: sample_defs)
  then show ?thesis
    by (simp add: error_response_def)
qed

section \<open>The DoH request\<close>

text \<open>
  C7. When the query packs and the URL is accepted, DNSOverHTTPS sends exactly one
  request: a GET for the DoH URL followed by \<open>?dns=\<close> and a value, with the header
  \<open>Accept: application/dns-message\<close>; the value contains no padding character \<open>=\<close>
  and decodes, as unpadded base64url, to exactly the packed bytes.
\<close>

theorem C7_doh_request:
  assumes "Pack cd \<lparr>qname = Fqdn cd domain, qtype = qt, recursion_desired = True\<rparr>
             = Inr msgBytes"
    and "url_error w (dohURL @ ''?dns='' @ EncodeToString msgBytes) = None"
  shows "\<exists>v. requests (snd (DNSOverHTTPS cd w domain dohURL qt))
               = [\<lparr>rmethod = ''GET'', url = dohURL @ ''?dns='' @ v,
                   headers = [(''Accept'', ''application/dns-message'')]\<rparr>]
            \<and> CHR ''='' \<notin> set v
            \<and> DecodeString v = Some msgBytes"
proof -
  have "requests (snd (DNSOverHTTPS cd w domain dohURL qt))
          = [\<lparr>rmethod = ''GET'', url = dohURL @ ''?dns='' @ EncodeToString msgBytes,
              headers = [(''Accept'', ''application/dns-message'')]\<rparr>]"
    using assms
    by (simp add: doh_defs split: blocking.splits sum.splits option.splits ending.splits)
  then show ?thesis
    using EncodeToString_no_pad [of msgBytes] Decode_Encode [of msgBytes] by blast
qed

theorem C7_doh_request_witness:
  "\<exists>v. requests (snd (DNSOverHTTPS echo_codec (http_world (Done ok_response))
            ''example.com'' ''https://cloudflare-dns.com/dns-query'' TypeA))
          = [\<lparr>rmethod = ''GET'', url = ''https://cloudflare-dns.com/dns-query'' @ ''?dns='' @ v,
              headers = [(''Accept'', ''application/dns-message'')]\<rparr>]
       \<and> CHR ''='' \<notin> set v
       \<and> DecodeString v = Some [1, 2, 3]"
  by (rule C7_doh_request) (simp_all add: sample_defs)

section \<open>The frame written by DNSOverTCP\<close>

text \<open>
  C8. For a packed query of at most 65535 bytes on an opened connection, the one write
  of the call is two bytes that read big-endian give the number of bytes of the packed
  query, followed by the packed query unchanged; when the write fails the call returns
  the send error and reads nothing, and no read happens unless the write succeeded.
\<close>

theorem C8_frame_written:
  assumes "dial w (dnsServer @ '':53'') = Done c"
    and "Pack cd \<lparr>qname = Fqdn cd domain, qtype = qt, recursion_desired = True\<rparr>
           = Inr msgBytes"
    and "length msgBytes \<le> 65535"
  shows "\<exists>hi lo. unat hi * 256 + unat lo = length msgBytes
           \<and> writes (snd (DNSOverTCP cd w domain dnsServer qt)) = [hi # lo # msgBytes]
           \<and> (\<forall>e. write_outcome c = Fails e \<longrightarrow>
                 DNSOverTCP cd w domain dnsServer qt
                   = (Some (Inl (SendFailed e)),
                      [ADial (dnsServer @ '':53''), APack, AWrite (hi # lo # msgBytes),
                       AClose]))
           \<and> (\<forall>n. ARead n \<in> set (snd (DNSOverTCP cd w domain dnsServer qt)) \<longrightarrow>
                 write_outcome c = Done ())"
proof -
  let ?hi = "ucast (drop_bit 8 (of_nat (length msgBytes) :: 16 word)) :: byte"
  let ?lo = "ucast ((of_nat (length msgBytes) :: 16 word) AND 0xFF) :: byte"
  have "unat ?hi * 256 + unat ?lo = length msgBytes mod 65536"
    by (rule prefix_value)
  with assms(3) have "unat ?hi * 256 + unat ?lo = length msgBytes"
    by simp
  moreover have "writes (snd (DNSOverTCP cd w domain dnsServer qt)) = [?hi # ?lo # msgBytes]"
    using assms(1,2) by (rule writes_after_connect)
  moreover have "\<forall>e. write_outcome c = Fails e \<longrightarrow>
                 DNSOverTCP cd w domain dnsServer qt
                   = (Some (Inl (SendFailed e)),
                      [ADial (dnsServer @ '':53''), APack, AWrite (?hi # ?lo # msgBytes),
                       AClose])"
    using write_failure [OF assms(1,2)] by blast
  moreover have "\<forall>n. ARead n \<in> set (snd (DNSOverTCP cd w domain dnsServer qt)) \<longrightarrow>
                 write_outcome c = Done ()"
    using reads_need_write [OF assms(1,2)] by blast
  ultimately show ?thesis by blast
qed

theorem C8_frame_written_witness:
  "(\<exists>hi lo. unat hi * 256 + unat lo = length [1, 2, 3 :: byte]
     \<and> writes (snd (DNSOverTCP echo_codec
          (tcp_world \<lparr>pending = [[0, 2, 7, 9]], ending = PeerCloses\<rparr>)
          ''example.com'' ''8.8.8.8'' TypeA)) = [hi # lo # [1, 2, 3]]
     \<and> (\<forall>e. write_outcome
             \<lparr>write_outcome = Done (),
              incoming = \<lparr>pending = [[0, 2, 7, 9]], ending = PeerCloses\<rparr>\<rparr> = Fails e \<longrightarrow>
           DNSOverTCP echo_codec (tcp_world \<lparr>pending = [[0, 2, 7, 9]], ending = PeerCloses\<rparr>)
             ''example.com'' ''8.8.8.8'' TypeA
             = (Some (Inl (SendFailed e)),
                [ADial (''8.8.8.8'' @ '':53''), APack, AWrite (hi # lo # [1, 2, 3]), AClose]))
     \<and> (\<forall>n. ARead n \<in> set (snd (DNSOverTCP echo_codec
             (tcp_world \<lparr>pending = [[0, 2, 7, 9]], ending = PeerCloses\<rparr>)
             ''example.com'' ''8.8.8.8'' TypeA)) \<longrightarrow>
           write_outcome
             \<lparr>write_outcome = Done (),
              incoming = \<lparr>pending = [[0, 2, 7, 9]], ending = PeerCloses\<rparr>\<rparr> = Done ()))
   \<and> (\<exists>hi lo. unat hi * 256 + unat lo = length [1, 2, 3 :: byte]
     \<and> writes (snd (DNSOverTCP echo_codec broken_pipe_world
          ''example.com'' ''8.8.8.8'' TypeA)) = [hi # lo # [1, 2, 3]]
     \<and> (\<forall>e. write_outcome
             \<lparr>write_outcome = Fails ''broken pipe'',
              incoming = \<lparr>pending = [], ending = PeerCloses\<rparr>\<rparr> = Fails e \<longrightarrow>
           DNSOverTCP echo_codec broken_pipe_world ''example.com'' ''8.8.8.8'' TypeA
             = (Some (Inl (SendFailed e)),
                [ADial (''8.8.8.8'' @ '':53''), APack, AWrite (hi # lo # [1, 2, 3]), AClose]))
     \<and> (\<forall>n. ARead n \<in> set (snd (DNSOverTCP echo_codec broken_pipe_world
             ''example.com'' ''8.8.8.8'' TypeA)) \<longrightarrow>
           write_outcome
             \<lparr>write_outcome = Fails ''broken pipe'',
              incoming = \<lparr>pending = [], ending = PeerCloses\<rparr>\<rparr> = Done ()))"
proof
  show "\<exists>hi lo. unat hi * 256 + unat lo = length [1, 2, 3 :: byte]
     \<and> writes (snd (DNSOverTCP echo_codec
          (tcp_world \<lparr>pending = [[0, 2, 7, 9]], ending = PeerCloses\<rparr>)
          ''example.com'' ''8.8.8.8'' TypeA)) = [hi # lo # [1, 2, 3]]
     \<and> (\<forall>e. write_outcome
             \<lparr>write_outcome = Done (),
              incoming = \<lparr>pending = [[0, 2, 7, 9]], ending = PeerCloses\<rparr>\<rparr> = Fails e \<longrightarrow>
           DNSOverTCP echo_codec (tcp_world \<lparr>pending = [[0, 2, 7, 9]], ending = PeerCloses\<rparr>)
             ''example.com'' ''8.8.8.8'' TypeA
             = (Some (Inl (SendFailed e)),
                [ADial (''8.8.8.8'' @ '':53''), APack, AWrite (hi # lo # [1, 2, 3]), AClose]))
     \<and> (\<forall>n. ARead n \<in> set (snd (DNSOverTCP echo_codec
             (tcp_world \<lparr>pending = [[0, 2, 7, 9]], ending = PeerCloses\<rparr>)
             ''example.com'' ''8.8.8.8'' TypeA)) \<longrightarrow>
           write_outcome
             \<lparr>write_outcome = Done (),
              incoming = \<lparr>pending = [[0, 2, 7, 9]], ending = PeerCloses\<rparr>\<rparr> = Done ())"
    by (rule C8_frame_written) (simp_all add: sample_defs)
  show "\<exists>hi lo. unat hi * 256 + unat lo = length [1, 2, 3 :: byte]
     \<and> writes (snd (DNSOverTCP echo_codec broken_pipe_world
          ''example.com'' ''8.8.8.8'' TypeA)) = [hi # lo # [1, 2, 3]]
     \<and> (\<forall>e. write_outcome
             \<lparr>write_outcome = Fails ''broken pipe'',
              incoming = \<lparr>pending = [], ending = PeerCloses\<rparr>\<rparr> = Fails e \<longrightarrow>
           DNSOverTCP echo_codec broken_pipe_world ''example.com'' ''8.8.8.8'' TypeA
             = (Some (Inl (SendFailed e)),
                [ADial (''8.8.8.8'' @ '':53''), APack, AWrite (hi # lo # [1, 2, 3]), AClose]))
     \<and> (\<forall>n. ARead n \<in> set (snd (DNSOverTCP echo_codec broken_pipe_world
             ''example.com'' ''8.8.8.8'' TypeA)) \<longrightarrow>
           write_outcome
             \<lparr>write_outcome = Fails ''broken pipe'',
              incoming = \<lparr>pending = [], ending = PeerCloses\<rparr>\<rparr> = Done ())"
    by (rule C8_frame_written) (simp_all add: sample_defs)
qed

section \<open>The order of dialling and packing\<close>

text \<open>
  C9, as the code has it. DNSOverTCP dials before it packs the query: when packing
  fails on an opened connection, the call returns the pack error after the dial,
  nothing having been written, and the deferred close has run; when the dial fails,
  the call returns the connect error and the query is not packed.
\<close>

theorem C9_dial_before_pack:
  "(dial w (dnsServer @ '':53'') = Done c
      \<and> Pack cd \<lparr>qname = Fqdn cd domain, qtype = qt, recursion_desired = True\<rparr> = Inl e
    \<longrightarrow> DNSOverTCP cd w domain dnsServer qt
          = (Some (Inl (PackFailed e)), [ADial (dnsServer @ '':53''), APack, AClose]))
   \<and> (dial w (dnsServer @ '':53'') = Fails e'
    \<longrightarrow> DNSOverTCP cd w domain dnsServer qt
          = (Some (Inl (ConnectFailed e')), [ADial (dnsServer @ '':53'')]))"
  by (simp add: tcp_defs)

theorem C9_dial_before_pack_witness:
  "DNSOverTCP refusing_codec (tcp_world \<lparr>pending = [], ending = PeerCloses\<rparr>)
       ''example.com'' ''8.8.8.8'' TypeA
     = (Some (Inl (PackFailed ''bad rdata'')), [ADial ''8.8.8.8:53'', APack, AClose])
   \<and> DNSOverTCP refusing_codec (http_world (Done ok_response))
       ''example.com'' ''8.8.8.8'' TypeA
     = (Some (Inl (ConnectFailed ''connection refused'')), [ADial ''8.8.8.8:53''])"
  using
    C9_dial_before_pack [of "tcp_world \<lparr>pending = [], ending = PeerCloses\<rparr>" "''8.8.8.8''"
      "\<lparr>write_outcome = Done (), incoming = \<lparr>pending = [], ending = PeerCloses\<rparr>\<rparr>"
      refusing_codec "''example.com''" TypeA "''bad rdata''" "''connection refused''"]
    C9_dial_before_pack [of "http_world (Done ok_response)" "''8.8.8.8''"
      "\<lparr>write_outcome = Done (), incoming = \<lparr>pending = [], ending = PeerCloses\<rparr>\<rparr>"
      refusing_codec "''example.com''" TypeA "''bad rdata''" "''connection refused''"]
  by (simp add: sample_defs)

text \<open>
  A query that the codec refuses, on a network where the dial succeeds: the connection
  has been opened (and closed again) when the pack error is returned.
\<close>

theorem C9_pack_failure_counterexample:
  "DNSOverTCP refusing_codec (tcp_world \<lparr>pending = [], ending = PeerCloses\<rparr>)
       ''example.com'' ''8.8.8.8'' TypeA
    = (Some (Inl (PackFailed ''bad rdata'')), [ADial ''8.8.8.8:53'', APack, AClose])"
  by (simp add: tcp_defs sample_defs)

section \<open>A packed query longer than 65535 bytes\<close>

text \<open>
  C10. For a packed query of more than 65535 bytes on an opened connection the call
  does not stop at the length: it goes on to its write, whose two prefix bytes read
  big-endian give the number of bytes modulo 65536, which is not the number of bytes,
  followed by the whole packed query.
\<close>

theorem C10_length_truncated:
  assumes "dial w (dnsServer @ '':53'') = Done c"
    and "Pack cd \<lparr>qname = Fqdn cd domain, qtype = qt, recursion_desired = True\<rparr>
           = Inr msgBytes"
    and "65535 < length msgBytes"
  shows "\<exists>hi lo. unat hi * 256 + unat lo = length msgBytes mod 65536
           \<and> unat hi * 256 + unat lo \<noteq> length msgBytes
           \<and> take 3 (snd (DNSOverTCP cd w domain dnsServer qt))
               = [ADial (dnsServer @ '':53''), APack, AWrite (hi # lo # msgBytes)]
           \<and> writes (snd (DNSOverTCP cd w domain dnsServer qt)) = [hi # lo # msgBytes]"
proof -
  let ?hi = "ucast (drop_bit 8 (of_nat (length msgBytes) :: 16 word)) :: byte"
  let ?lo = "ucast ((of_nat (length msgBytes) :: 16 word) AND 0xFF) :: byte"
  have v: "unat ?hi * 256 + unat ?lo = length msgBytes mod 65536"
    by (rule prefix_value)
  have "length msgBytes mod 65536 < 65536" by simp
  with assms(3) v have "unat ?hi * 256 + unat ?lo \<noteq> length msgBytes"
    by linarith
  moreover have "take 3 (snd (DNSOverTCP cd w domain dnsServer qt))
               = [ADial (dnsServer @ '':53''), APack, AWrite (?hi # ?lo # msgBytes)]"
    using assms(1,2) by (rule write_attempted)
  moreover have "writes (snd (DNSOverTCP cd w domain dnsServer qt)) = [?hi # ?lo # msgBytes]"
    using assms(1,2) by (rule writes_after_connect)
  ultimately show ?thesis using v by blast
qed

theorem C10_length_truncated_witness:
  "\<exists>hi lo. unat hi * 256 + unat lo = length (replicate 65536 (0 :: byte)) mod 65536
     \<and> unat hi * 256 + unat lo \<noteq> length (replicate 65536 (0 :: byte))
     \<and> take 3 (snd (DNSOverTCP long_codec
          (tcp_world \<lparr>pending = [[0, 2, 7, 9]], ending = PeerCloses\<rparr>)
          ''example.com'' ''8.8.8.8'' TypeA))
         = [ADial (''8.8.8.8'' @ '':53''), APack, AWrite (hi # lo # replicate 65536 0)]
     \<and> writes (snd (DNSOverTCP long_codec
          (tcp_world \<lparr>pending = [[0, 2, 7, 9]], ending = PeerCloses\<rparr>)
          ''example.com'' ''8.8.8.8'' TypeA)) = [hi # lo # replicate 65536 0]"
  by (rule C10_length_truncated) (simp_all add: sample_defs)

end
